theory Spec2Isabelle
  imports Complex_Main
begin

section \<open>Vortexje: trailing-edge geometry and wake emission of a lifting surface\<close>

text \<open>
  The development embeds \<^verbatim>\<open>LiftingSurface\<close> (the lifting-surface source) and
  \<^verbatim>\<open>DummyBoundaryLayer\<close> (boundary-layers/dummy-boundary-layer.cpp).

  Modelling decisions.
  \<^item> A C++ \<^verbatim>\<open>double\<close> is a value of an arbitrary type \<open>'d\<close>. Its zero, sum, difference,
    negation, product and quotient are the constants \<open>0\<close>, \<open>+\<close>, \<open>-\<close>, \<open>*\<close>, \<open>/\<close> of the
    syntactic classes, about which nothing is assumed, and the square root is a
    parameter \<open>sq_root\<close> of the functions that take a norm. No law of arithmetic is
    available to a proof, so a theorem stated for every \<open>'d\<close> holds of binary64 with its
    rounding, its infinities and its NaN. What is true of exact arithmetic only
    (a unit norm, an orthogonal or parallel result, a norm bound, linearity) is for
    that reason not a theorem here.
  \<^item> An unchecked access outside a matrix or outside the node vector is undefined
    behaviour in the source; here it is the value \<open>Inl OutOfRange\<close>.
  \<^item> Normalising a vector of norm zero is the value \<open>Inl ZeroNorm\<close>; a fault reaches the
    caller's result, as a NaN would reach every component of the returned vector.
  \<^item> \<^verbatim>\<open>int\<close> and Eigen's index type are \<^typ>\<open>int\<close>; grid dimensions are taken to fit a
    C \<^verbatim>\<open>int\<close>, so that the casts \<^verbatim>\<open>(int) m.rows()\<close> keep the value.
\<close>

subsection \<open>Faults\<close>

datatype fault = OutOfRange | ZeroNorm

definition bind :: "fault + 'a \<Rightarrow> ('a \<Rightarrow> fault + 'b) \<Rightarrow> fault + 'b" where
  "bind m f = (case m of Inl e \<Rightarrow> Inl e | Inr x \<Rightarrow> f x)"

subsection \<open>Eigen::Vector3d\<close>

text \<open>
  The vector type and its operators belong to the Eigen library, which the repository
  uses and does not contain; each is the componentwise expression in the arithmetic
  of \<open>'d\<close>, with the operations in the order in which they are written.
\<close>

datatype 'd Vector3d = Vector3d (vx: 'd) (vy: 'd) (vz: 'd)

definition vadd :: "'d::plus Vector3d \<Rightarrow> 'd Vector3d \<Rightarrow> 'd Vector3d" where
  "vadd a b = Vector3d (vx a + vx b) (vy a + vy b) (vz a + vz b)"

definition vsub :: "'d::minus Vector3d \<Rightarrow> 'd Vector3d \<Rightarrow> 'd Vector3d" where
  "vsub a b = Vector3d (vx a - vx b) (vy a - vy b) (vz a - vz b)"

definition vneg :: "'d::uminus Vector3d \<Rightarrow> 'd Vector3d" where
  "vneg a = Vector3d (- vx a) (- vy a) (- vz a)"

definition vscale :: "'d::times \<Rightarrow> 'd Vector3d \<Rightarrow> 'd Vector3d" where
  "vscale k a = Vector3d (k * vx a) (k * vy a) (k * vz a)"

definition vdiv :: "'d::inverse Vector3d \<Rightarrow> 'd \<Rightarrow> 'd Vector3d" where
  "vdiv a k = Vector3d (vx a / k) (vy a / k) (vz a / k)"

definition dot :: "'d::{plus,times} Vector3d \<Rightarrow> 'd Vector3d \<Rightarrow> 'd" where
  "dot a b = vx a * vx b + vy a * vy b + vz a * vz b"

definition cross :: "'d::{minus,times} Vector3d \<Rightarrow> 'd Vector3d \<Rightarrow> 'd Vector3d" where
  "cross a b = Vector3d (vy a * vz b - vz a * vy b)
                        (vz a * vx b - vx a * vz b)
                        (vx a * vy b - vy a * vx b)"

definition norm3 :: "('d \<Rightarrow> 'd) \<Rightarrow> 'd::{plus,times} Vector3d \<Rightarrow> 'd" where
  "norm3 sq_root a = sq_root (dot a a)"

text \<open>
  Modelled from the spec: Eigen's in-place \<^verbatim>\<open>normalize()\<close>, whose body is not part of
  the repository. The spec gives it as division by the norm, undefined (NaN) on a
  vector of zero length.
\<close>

definition normalize3 ::
  "('d \<Rightarrow> 'd) \<Rightarrow> 'd::{zero,plus,times,inverse} Vector3d \<Rightarrow> fault + 'd Vector3d" where
  "normalize3 sq_root a =
     (if norm3 sq_root a = 0 then Inl ZeroNorm else Inr (vdiv a (norm3 sq_root a)))"

subsection \<open>Eigen::MatrixXi and the node vector\<close>

record MatrixXi =
  rows :: nat
  cols :: nat
  coeff :: "nat \<Rightarrow> nat \<Rightarrow> int"

text \<open>\<^verbatim>\<open>m(r, c)\<close>: unchecked in the source, a fault here outside the matrix.\<close>

definition coeff_at :: "MatrixXi \<Rightarrow> int \<Rightarrow> int \<Rightarrow> fault + int" where
  "coeff_at m r c =
     (if 0 \<le> r \<and> r < int (rows m) \<and> 0 \<le> c \<and> c < int (cols m)
      then Inr (coeff m (nat r) (nat c)) else Inl OutOfRange)"

text \<open>\<^verbatim>\<open>nodes[id]\<close> on the vector of node positions.\<close>

definition node_at :: "'d Vector3d list \<Rightarrow> int \<Rightarrow> fault + 'd Vector3d" where
  "node_at ns k =
     (if 0 \<le> k \<and> k < int (length ns) then Inr (ns ! nat k) else Inl OutOfRange)"

subsection \<open>LiftingSurface\<close>

record 'd LiftingSurface =
  nodes :: "'d Vector3d list"
  upper_nodes :: MatrixXi
  lower_nodes :: MatrixXi
  upper_panels :: MatrixXi
  lower_panels :: MatrixXi

text \<open>
  \<^verbatim>\<open>Parameters::wake_emission_follow_bisector\<close> is a static member declared in
  parameters.hpp, which is not part of the sources at hand; the functions take the
  parameters as an argument.
\<close>

record Parameters =
  wake_emission_follow_bisector :: bool

definition n_chordwise_nodes :: "('d, 'a) LiftingSurface_scheme \<Rightarrow> int" where
  "n_chordwise_nodes s = int (rows (upper_nodes s))"

definition n_chordwise_panels :: "('d, 'a) LiftingSurface_scheme \<Rightarrow> int" where
  "n_chordwise_panels s = int (rows (upper_panels s))"

definition n_spanwise_nodes :: "('d, 'a) LiftingSurface_scheme \<Rightarrow> int" where
  "n_spanwise_nodes s = int (cols (upper_nodes s))"

definition n_spanwise_panels :: "('d, 'a) LiftingSurface_scheme \<Rightarrow> int" where
  "n_spanwise_panels s = int (cols (upper_panels s))"

definition trailing_edge_node :: "('d, 'a) LiftingSurface_scheme \<Rightarrow> int \<Rightarrow> fault + int" where
  "trailing_edge_node s index = coeff_at (upper_nodes s) (int (rows (upper_nodes s)) - 1) index"

definition trailing_edge_upper_panel ::
  "('d, 'a) LiftingSurface_scheme \<Rightarrow> int \<Rightarrow> fault + int" where
  "trailing_edge_upper_panel s index =
     coeff_at (upper_panels s) (int (rows (upper_panels s)) - 1) index"

definition trailing_edge_lower_panel ::
  "('d, 'a) LiftingSurface_scheme \<Rightarrow> int \<Rightarrow> fault + int" where
  "trailing_edge_lower_panel s index =
     coeff_at (lower_panels s) (int (rows (lower_panels s)) - 1) index"

text \<open>
  The two differences that \<^verbatim>\<open>trailing_edge_bisector\<close> takes first: the locals
  \<^verbatim>\<open>upper\<close> and \<^verbatim>\<open>lower\<close> before they are normalised.
\<close>

definition chordwise_tangent ::
  "'d::minus Vector3d list \<Rightarrow> MatrixXi \<Rightarrow> int \<Rightarrow> fault + 'd Vector3d" where
  "chordwise_tangent ns g node_index =
     bind (coeff_at g (int (rows g) - 1) node_index) (\<lambda>last_id.
     bind (node_at ns last_id) (\<lambda>last_pos.
     bind (coeff_at g (int (rows g) - 2) node_index) (\<lambda>before_id.
     bind (node_at ns before_id) (\<lambda>before_pos.
       Inr (vsub last_pos before_pos)))))"

definition upper_tangent ::
  "('d::minus, 'a) LiftingSurface_scheme \<Rightarrow> int \<Rightarrow> fault + 'd Vector3d" where
  "upper_tangent s node_index = chordwise_tangent (nodes s) (upper_nodes s) node_index"

definition lower_tangent ::
  "('d::minus, 'a) LiftingSurface_scheme \<Rightarrow> int \<Rightarrow> fault + 'd Vector3d" where
  "lower_tangent s node_index = chordwise_tangent (nodes s) (lower_nodes s) node_index"

definition trailing_edge_bisector ::
  "('d \<Rightarrow> 'd) \<Rightarrow> ('d::{zero,plus,minus,times,inverse}, 'a) LiftingSurface_scheme \<Rightarrow> int
     \<Rightarrow> fault + 'd Vector3d" where
  "trailing_edge_bisector sq_root s node_index =
     bind (upper_tangent s node_index) (\<lambda>upper.
     bind (lower_tangent s node_index) (\<lambda>lower.
     bind (normalize3 sq_root upper) (\<lambda>upper'.
     bind (normalize3 sq_root lower) (\<lambda>lower'.
       normalize3 sq_root (vadd upper' lower')))))"

text \<open>The locals \<^verbatim>\<open>prev_node\<close> and \<^verbatim>\<open>next_node\<close> of \<^verbatim>\<open>wake_emission_velocity\<close>.\<close>

definition prev_node :: "('d, 'a) LiftingSurface_scheme \<Rightarrow> int \<Rightarrow> fault + int" where
  "prev_node s node_index =
     (if node_index > 0 then trailing_edge_node s (node_index - 1)
      else trailing_edge_node s node_index)"

definition next_node :: "('d, 'a) LiftingSurface_scheme \<Rightarrow> int \<Rightarrow> fault + int" where
  "next_node s node_index =
     (if node_index < n_spanwise_nodes s - 1 then trailing_edge_node s (node_index + 1)
      else trailing_edge_node s node_index)"

text \<open>The locals \<^verbatim>\<open>span_direction\<close> and \<^verbatim>\<open>wake_normal\<close> of the first branch.\<close>

definition span_direction ::
  "('d::minus, 'a) LiftingSurface_scheme \<Rightarrow> int \<Rightarrow> int \<Rightarrow> fault + 'd Vector3d" where
  "span_direction s prev nxt =
     bind (node_at (nodes s) nxt) (\<lambda>next_pos.
     bind (node_at (nodes s) prev) (\<lambda>prev_pos.
       Inr (vsub next_pos prev_pos)))"

definition wake_normal ::
  "('d \<Rightarrow> 'd) \<Rightarrow> ('d::{zero,plus,minus,times,inverse}, 'a) LiftingSurface_scheme
     \<Rightarrow> int \<Rightarrow> int \<Rightarrow> 'd Vector3d \<Rightarrow> fault + 'd Vector3d" where
  "wake_normal sq_root s prev nxt bisector =
     bind (span_direction s prev nxt) (\<lambda>span. normalize3 sq_root (cross span bisector))"

definition wake_emission_velocity ::
  "('d \<Rightarrow> 'd) \<Rightarrow> 'p Parameters_scheme
     \<Rightarrow> ('d::{zero,plus,minus,uminus,times,inverse}, 'a) LiftingSurface_scheme
     \<Rightarrow> 'd Vector3d \<Rightarrow> int \<Rightarrow> fault + 'd Vector3d" where
  "wake_emission_velocity sq_root p s apparent_velocity node_index =
     (if wake_emission_follow_bisector p \<and> n_chordwise_nodes s > 1 then
        bind (prev_node s node_index) (\<lambda>prev.
        bind (next_node s node_index) (\<lambda>nxt.
        bind (trailing_edge_bisector sq_root s node_index) (\<lambda>bisector.
          if prev \<noteq> nxt then
            bind (wake_normal sq_root s prev nxt bisector) (\<lambda>wn.
              Inr (vneg (vsub apparent_velocity (vscale (dot apparent_velocity wn) wn))))
          else
            Inr (vscale (- dot apparent_velocity bisector) bisector))))
      else
        Inr (vneg apparent_velocity))"

subsection \<open>DummyBoundaryLayer\<close>

text \<open>
  The class adds no member of its own; \<open>'b\<close> stands for whatever the object holds.
  \<^verbatim>\<open>recalculate\<close> is the one method that is not \<^verbatim>\<open>const\<close>: it takes the object and
  returns it after the call.
\<close>

record 'd MatrixXd =
  rows_d :: nat
  cols_d :: nat
  coeff_d :: "nat \<Rightarrow> nat \<Rightarrow> 'd"

definition recalculate :: "'b \<Rightarrow> 'd MatrixXd \<Rightarrow> 'b" where
  "recalculate layer surface_velocities = layer"

definition blowing_velocity :: "'b \<Rightarrow> int \<Rightarrow> 'd::zero" where
  "blowing_velocity layer panel = 0"

definition friction :: "'b \<Rightarrow> int \<Rightarrow> 'd::zero Vector3d" where
  "friction layer panel = Vector3d 0 0 0"

subsection \<open>Example surfaces\<close>

text \<open>
  The examples have small integer coordinates and axis-aligned edges, and are
  evaluated with \<open>'d\<close> the reals and \<^const>\<open>sqrt\<close>: every operation that the functions
  perform on them has an integer result, which binary64 arithmetic gives as well.

  The flat surface: two chordwise rows along the x axis, three spanwise stations
  along the y axis; the upper and the lower half share their nodes.
\<close>

definition flat_grid :: MatrixXi where
  "flat_grid = \<lparr> rows = 2, cols = 3, coeff = (\<lambda>r c. int (3 * r + c)) \<rparr>"

definition flat_panels :: MatrixXi where
  "flat_panels = \<lparr> rows = 1, cols = 2, coeff = (\<lambda>r c. int c) \<rparr>"

definition flat_surface :: "real LiftingSurface" where
  "flat_surface =
     \<lparr> nodes = [Vector3d 0 0 0, Vector3d 0 1 0, Vector3d 0 2 0,
                Vector3d 1 0 0, Vector3d 1 1 0, Vector3d 1 2 0],
       upper_nodes = flat_grid, lower_nodes = flat_grid,
       upper_panels = flat_panels, lower_panels = flat_panels \<rparr>"

text \<open>The same surface cut down to its first spanwise station.\<close>

definition strip_grid :: MatrixXi where
  "strip_grid = \<lparr> rows = 2, cols = 1, coeff = (\<lambda>r c. int (3 * r)) \<rparr>"

definition strip_surface :: "real LiftingSurface" where
  "strip_surface = flat_surface \<lparr> upper_nodes := strip_grid, lower_nodes := strip_grid \<rparr>"

text \<open>
  The flat surface with its last trailing-edge node moved onto the first one: at the
  middle station the neighbours are the distinct nodes 3 and 5 at the same position.
\<close>

definition pinched_surface :: "real LiftingSurface" where
  "pinched_surface =
     flat_surface \<lparr> nodes := [Vector3d 0 0 0, Vector3d 0 1 0, Vector3d 0 2 0,
                               Vector3d 1 0 0, Vector3d 1 1 0, Vector3d 1 0 0] \<rparr>"

text \<open>
  A surface of one spanwise station whose halves arrive at the trailing-edge node 1
  from opposite sides: the upper tangent is \<open>(1, 0, 0)\<close>, the lower one \<open>(- 1, 0, 0)\<close>.
\<close>

definition folded_upper :: MatrixXi where
  "folded_upper = \<lparr> rows = 2, cols = 1, coeff = (\<lambda>r c. int r) \<rparr>"

definition folded_lower :: MatrixXi where
  "folded_lower = \<lparr> rows = 2, cols = 1, coeff = (\<lambda>r c. if r = 0 then 2 else 1) \<rparr>"

definition folded_surface :: "real LiftingSurface" where
  "folded_surface =
     \<lparr> nodes = [Vector3d 0 0 0, Vector3d 1 0 0, Vector3d 2 0 0],
       upper_nodes = folded_upper, lower_nodes = folded_lower,
       upper_panels = flat_panels, lower_panels = flat_panels \<rparr>"

definition follow :: Parameters where
  "follow = \<lparr> wake_emission_follow_bisector = True \<rparr>"

definition direct :: Parameters where
  "direct = \<lparr> wake_emission_follow_bisector = False \<rparr>"

section \<open>Properties\<close>

lemma bind_Inr [simp]: "bind (Inr x) f = f x"
  by (simp add: bind_def)

lemma bind_Inl [simp]: "bind (Inl e) f = Inl e"
  by (simp add: bind_def)

lemma bind_eq_Inr: "bind m f = Inr y \<longleftrightarrow> (\<exists>x. m = Inr x \<and> f x = Inr y)"
  by (cases m) simp_all

text \<open>
  A fault of the bisector or of the wake normal is the result of the bisector-following
  mode: nothing in the source guards a normalisation.
\<close>

lemma wake_emission_velocity_bisector_fault:
  assumes "wake_emission_follow_bisector p" and "n_chordwise_nodes s > 1"
    and "prev_node s i = Inr k" and "next_node s i = Inr j"
    and "trailing_edge_bisector sq_root s i = Inl e"
  shows "wake_emission_velocity sq_root p s v i = Inl e"
  using assms by (simp add: wake_emission_velocity_def)

lemma wake_emission_velocity_normal_fault:
  assumes "wake_emission_follow_bisector p" and "n_chordwise_nodes s > 1"
    and "prev_node s i = Inr k" and "next_node s i = Inr j" and "k \<noteq> j"
    and "trailing_edge_bisector sq_root s i = Inr b"
    and "wake_normal sq_root s k j b = Inl e"
  shows "wake_emission_velocity sq_root p s v i = Inl e"
  using assms by (simp add: wake_emission_velocity_def)

lemmas example_defs =
  flat_grid_def flat_panels_def flat_surface_def strip_grid_def strip_surface_def
  pinched_surface_def folded_upper_def folded_lower_def folded_surface_def
  follow_def direct_def

lemmas vector_defs =
  vadd_def vsub_def vneg_def vscale_def vdiv_def dot_def cross_def norm3_def normalize3_def

lemmas surface_defs =
  n_chordwise_nodes_def n_chordwise_panels_def n_spanwise_nodes_def n_spanwise_panels_def
  trailing_edge_node_def trailing_edge_upper_panel_def trailing_edge_lower_panel_def
  chordwise_tangent_def upper_tangent_def lower_tangent_def trailing_edge_bisector_def
  prev_node_def next_node_def span_direction_def wake_normal_def wake_emission_velocity_def
  coeff_at_def node_at_def

section \<open>The claims\<close>




text \<open>
  C2. When the flag is unset or there is at most one chordwise node,
  \<open>wake_emission_velocity\<close> returns exactly \<open>- v\<close>, whatever the mesh and whatever the
  index, valid or not.
\<close>

theorem wake_emission_direct:
  "\<not> wake_emission_follow_bisector p \<or> n_chordwise_nodes s \<le> 1 \<Longrightarrow>
     wake_emission_velocity sq_root p s v i = Inr (vneg v)"
  by (auto simp: wake_emission_velocity_def)

theorem wake_emission_direct_witness:
  "\<not> wake_emission_follow_bisector direct
   \<and> wake_emission_velocity sqrt direct flat_surface (Vector3d 0 0 (- 5)) 7
       = Inr (Vector3d 0 0 5)"
proof -
  have h: "\<not> wake_emission_follow_bisector direct"
    by (simp add: direct_def)
  then have "\<not> wake_emission_follow_bisector direct \<or> n_chordwise_nodes flat_surface \<le> 1"
    by simp
  from wake_emission_direct [OF this, of sqrt "Vector3d 0 0 (- 5)" 7] h show ?thesis
    by (simp add: vneg_def)
qed

text \<open>
  C3. The neighbours of station \<open>i\<close> are read with clamping and without wrap-around:
  \<open>prev\<close> is the trailing-edge node at \<open>i - 1\<close> when \<open>i > 0\<close> and at \<open>i\<close> otherwise,
  \<open>next\<close> is the one at \<open>i + 1\<close> when \<open>i < n_spanwise_nodes - 1\<close> and at \<open>i\<close> otherwise; for
  a valid \<open>i\<close> these are the stations \<open>max 0 (i - 1)\<close> and \<open>min (n - 1) (i + 1)\<close>. On a
  surface with one spanwise station the two agree, and the bisector-following mode
  returns the projection onto the bisector line.
\<close>

theorem neighbour_clamping:
  assumes "0 \<le> i" and "i < n_spanwise_nodes s"
  shows "prev_node s i
           = (if i > 0 then trailing_edge_node s (i - 1) else trailing_edge_node s i)
       \<and> next_node s i
           = (if i < n_spanwise_nodes s - 1 then trailing_edge_node s (i + 1)
              else trailing_edge_node s i)
       \<and> prev_node s i = trailing_edge_node s (max 0 (i - 1))
       \<and> next_node s i = trailing_edge_node s (min (n_spanwise_nodes s - 1) (i + 1))
       \<and> (n_spanwise_nodes s = 1 \<longrightarrow>
            prev_node s i = next_node s i
          \<and> (wake_emission_follow_bisector p \<and> n_chordwise_nodes s > 1 \<longrightarrow>
               wake_emission_velocity sq_root p s v i
                 = bind (trailing_edge_bisector sq_root s i)
                     (\<lambda>bisector. Inr (vscale (- dot v bisector) bisector))))"
proof -
  have prev: "prev_node s i = trailing_edge_node s (max 0 (i - 1))"
    using assms by (simp add: prev_node_def max_def)
  have nxt: "next_node s i = trailing_edge_node s (min (n_spanwise_nodes s - 1) (i + 1))"
  proof (cases "i < n_spanwise_nodes s - 1")
    case True
    then have "min (n_spanwise_nodes s - 1) (i + 1) = i + 1"
      by simp
    with True show ?thesis
      by (simp add: next_node_def)
  next
    case False
    with assms have "min (n_spanwise_nodes s - 1) (i + 1) = i"
      by simp
    with False show ?thesis
      by (simp add: next_node_def)
  qed
  have single: "wake_emission_velocity sq_root p s v i
      = bind (trailing_edge_bisector sq_root s i)
          (\<lambda>bisector. Inr (vscale (- dot v bisector) bisector))"
    if one: "n_spanwise_nodes s = 1"
      and mode: "wake_emission_follow_bisector p \<and> n_chordwise_nodes s > 1"
  proof -
    from assms one have i0: "i = 0"
      by simp
    from one mode have "trailing_edge_node s 0
        = Inr (coeff (upper_nodes s) (rows (upper_nodes s) - 1) 0)"
      by (simp add: trailing_edge_node_def coeff_at_def n_spanwise_nodes_def
          n_chordwise_nodes_def nat_diff_distrib)
    with i0 one mode show ?thesis
      by (simp add: wake_emission_velocity_def prev_node_def next_node_def)
  qed
  have same: "prev_node s i = next_node s i" if "n_spanwise_nodes s = 1"
    using that assms by (simp add: prev_node_def next_node_def)
  from prev nxt single same show ?thesis
    by (simp add: prev_node_def next_node_def)
qed

theorem neighbour_clamping_witness:
  "(0::int) \<le> 0 \<and> 0 < n_spanwise_nodes strip_surface
   \<and> n_spanwise_nodes strip_surface = 1
   \<and> prev_node strip_surface 0 = Inr 3 \<and> next_node strip_surface 0 = Inr 3
   \<and> wake_emission_velocity sqrt follow strip_surface (Vector3d 2 3 (- 5)) 0
       = Inr (Vector3d (- 2) 0 0)"
proof -
  have h1: "(0::int) \<le> 0"
    by simp
  have h2: "0 < n_spanwise_nodes strip_surface"
    by (simp add: example_defs n_spanwise_nodes_def)
  have one: "n_spanwise_nodes strip_surface = 1"
    by (simp add: example_defs n_spanwise_nodes_def)
  have mode: "wake_emission_follow_bisector follow \<and> n_chordwise_nodes strip_surface > 1"
    by (simp add: example_defs n_chordwise_nodes_def)
  have te: "trailing_edge_node strip_surface 0 = Inr 3"
    by (simp add: example_defs trailing_edge_node_def coeff_at_def)
  have b: "trailing_edge_bisector sqrt strip_surface 0 = Inr (Vector3d 1 0 0)"
    by (simp add: example_defs surface_defs vector_defs)
  from neighbour_clamping [OF h1 h2, of follow sqrt "Vector3d 2 3 (- 5)"] one mode te b
  have "prev_node strip_surface 0 = Inr 3 \<and> next_node strip_surface 0 = Inr 3
      \<and> wake_emission_velocity sqrt follow strip_surface (Vector3d 2 3 (- 5)) 0
          = Inr (vscale (- dot (Vector3d 2 3 (- 5)) (Vector3d 1 0 0)) (Vector3d 1 0 0))"
    by simp
  with h2 one show ?thesis
    by (simp add: vscale_def dot_def)
qed




text \<open>
  C6. For a valid spanwise index \<open>i\<close> of a grid with at least one row,
  \<open>trailing_edge_node\<close> returns the entry of the upper node grid in its last row and
  column \<open>i\<close>.
\<close>

theorem trailing_edge_node_last_row:
  assumes "0 < rows (upper_nodes s)" and "0 \<le> i" and "i < n_spanwise_nodes s"
  shows "trailing_edge_node s i
       = Inr (coeff (upper_nodes s) (rows (upper_nodes s) - 1) (nat i))"
  using assms
  by (simp add: trailing_edge_node_def coeff_at_def n_spanwise_nodes_def nat_diff_distrib)

theorem trailing_edge_node_last_row_witness:
  "0 < rows (upper_nodes flat_surface) \<and> (0::int) \<le> 2 \<and> 2 < n_spanwise_nodes flat_surface
   \<and> coeff (upper_nodes flat_surface) 1 2 = 5
   \<and> trailing_edge_node flat_surface 2 = Inr 5"
proof -
  have h1: "0 < rows (upper_nodes flat_surface)"
    by (simp add: example_defs)
  have h2: "(0::int) \<le> 2"
    by simp
  have h3: "2 < n_spanwise_nodes flat_surface"
    by (simp add: example_defs n_spanwise_nodes_def)
  from trailing_edge_node_last_row [OF h1 h2 h3] h1 h3 show ?thesis
    by (simp add: example_defs)
qed

text \<open>
  C7. The dummy boundary layer: \<open>blowing_velocity\<close> is \<open>0\<close> and \<open>friction\<close> is the zero
  vector for every panel, and \<open>recalculate\<close> returns the object as it was, for every
  matrix of surface velocities.
\<close>

theorem dummy_boundary_layer_noop:
  "blowing_velocity layer panel = 0
   \<and> friction layer panel = Vector3d 0 0 0
   \<and> recalculate layer surface_velocities = layer"
  by (simp add: blowing_velocity_def friction_def recalculate_def)


end
